theory Spec2Isabelle
  imports Complex_Main
begin

section \<open>RepCue video pipeline: retiming and triple-aspect batch rendering\<close>

text \<open>
  A shallow embedding of the pipeline logic of three Blender scripts:
  \<^item> \<^verbatim>\<open>blender_batch_render.py\<close>: \<^verbatim>\<open>import_asset\<close>, \<^verbatim>\<open>find_action\<close>, \<^verbatim>\<open>position_camera\<close>, and of
    the per-id main loop the asset lookup and import (lines 156-166), the frame range
    (lines 170-176) and the animation branch (lines 179-203);
  \<^item> \<^verbatim>\<open>render_catalog_scenes.py\<close>: the frame range and the aspect loop of \<^verbatim>\<open>main\<close>;
  \<^item> \<^verbatim>\<open>repcue_render_addon.py\<close>: the frame range set by \<^verbatim>\<open>REPCUE_OT_render.execute\<close>.

  Conventions of the model.
  \<^item> Python floats (and the host's frame coordinates) are idealised as \<^typ>\<open>real\<close>: the
    arithmetic is exact, rounding is not modelled. Python integers are \<^typ>\<open>int\<close>.
  \<^item> The host (Blender, the file system) is a parameter: a record of functions that say
    which files exist, what an import leaves selected (or which exception it raises) and
    which frame range an action reports. Scene attributes are plain fields.
  \<^item> An exception is a value: a fallible step returns \<open>py_error + 'a\<close>, \<open>Inl\<close> the
    exception. The scripts contain no \<^verbatim>\<open>try\<close>, so an \<open>Inl\<close> travels to the top.
  \<^item> Paths follow \<^verbatim>\<open>posixpath\<close>.
  \<^item> Line 207 of \<^verbatim>\<open>blender_batch_render.py\<close>, the first statement of the aspect loop, is
    malformed (a conditional expression without its \<^verbatim>\<open>else\<close>, over the undefined name
    \<^verbatim>\<open>FLOOD_IDS\<close>): Python refuses it. The aspect loop of that script (lines 206-214) is
    therefore not modelled, and nothing here says that the script renders anything. The
    definitions for that script embed the line ranges named above, each as it is written;
    what an iteration of the main loop does outside them (the scene set-up of lines
    138-154, and everything after the import) is a parameter that may raise.
\<close>

subsection \<open>Exceptions and Python arithmetic\<close>

datatype py_error = ZeroDivisionError | RuntimeError string

text \<open>\<^verbatim>\<open>a / b\<close> on floats raises on a zero divisor.\<close>

definition py_truediv :: "real \<Rightarrow> real \<Rightarrow> py_error + real" where
  "py_truediv a b = (if b = 0 then Inl ZeroDivisionError else Inr (a / b))"

text \<open>\<^verbatim>\<open>int(x)\<close> on a float truncates towards zero.\<close>

definition py_int :: "real \<Rightarrow> int" where
  "py_int x = (if 0 \<le> x then \<lfloor>x\<rfloor> else \<lceil>x\<rceil>)"

subsection \<open>Animation data\<close>

text \<open>
  A keyframe point with the coordinates the scripts touch: \<^verbatim>\<open>co.x\<close> (time), \<^verbatim>\<open>co.y\<close>
  (value) and the time of each handle.
\<close>

record keyframe =
  co_x :: real
  co_y :: real
  handle_left_x :: real
  handle_right_x :: real

record fcurve =
  data_path :: string
  array_index :: nat
  keyframe_points :: "keyframe list"

record action =
  action_name :: string
  fcurves :: "fcurve list"

definition key_times :: "fcurve \<Rightarrow> real list" where
  "key_times fc = map co_x (keyframe_points fc)"

subsection \<open>Retiming (blender\_batch\_render.py, lines 182-189)\<close>

text \<open>
  \<^verbatim>\<open>orig = (fend - fstart) if fend > fstart else 1.0\<close>
\<close>

definition orig_length :: "real \<times> real \<Rightarrow> real" where
  "orig_length s = (case s of (fstart, fend) \<Rightarrow> if fend > fstart then fend - fstart else 1)"

text \<open>
  \<^verbatim>\<open>scale = (scene.frame_end - scene.frame_start + 1) / orig\<close>
\<close>

definition retime_scale :: "real \<times> real \<Rightarrow> int \<times> int \<Rightarrow> py_error + real" where
  "retime_scale s t =
     (case t of (frame_start, frame_end) \<Rightarrow>
        py_truediv (real_of_int (frame_end - frame_start + 1)) (orig_length s))"

text \<open>
  \<^verbatim>\<open>x = (x - fstart) * scale + scene.frame_start\<close>, the right-hand side of lines 187-189.
\<close>

definition retime_time :: "real \<Rightarrow> real \<Rightarrow> int \<Rightarrow> real \<Rightarrow> real" where
  "retime_time fstart scale frame_start x = (x - fstart) * scale + real_of_int frame_start"

definition retime_keyframe :: "real \<Rightarrow> real \<Rightarrow> int \<Rightarrow> keyframe \<Rightarrow> keyframe" where
  "retime_keyframe fstart scale frame_start kp =
     kp\<lparr>co_x := retime_time fstart scale frame_start (co_x kp),
        handle_left_x := retime_time fstart scale frame_start (handle_left_x kp),
        handle_right_x := retime_time fstart scale frame_start (handle_right_x kp)\<rparr>"

text \<open>The inner loop, \<^verbatim>\<open>for kp in fcurve.keyframe_points\<close>.\<close>

definition retime_fcurve :: "real \<Rightarrow> real \<Rightarrow> int \<Rightarrow> fcurve \<Rightarrow> fcurve" where
  "retime_fcurve fstart scale frame_start fc =
     fc\<lparr>keyframe_points := map (retime_keyframe fstart scale frame_start) (keyframe_points fc)\<rparr>"

text \<open>
  The retiming of one curve from the source range \<open>s = (fstart, fend)\<close> onto the scene
  range \<open>t = (frame_start, frame_end)\<close>: the scale, then the inner loop.
\<close>

definition retime :: "fcurve \<Rightarrow> real \<times> real \<Rightarrow> int \<times> int \<Rightarrow> py_error + fcurve" where
  "retime fc s t =
     (case retime_scale s t of
        Inl e \<Rightarrow> Inl e
      | Inr scale \<Rightarrow> Inr (retime_fcurve (fst s) scale (fst t) fc))"

text \<open>
  The branch \<^verbatim>\<open>if act:\<close> as a whole: the range \<open>s\<close> is what \<^verbatim>\<open>act.frame_range\<close> gave on
  line 182, read once before any keyframe moves; the outer loop runs over every curve of
  the action.
\<close>

definition normalize_action :: "action \<Rightarrow> real \<times> real \<Rightarrow> int \<times> int \<Rightarrow> py_error + action" where
  "normalize_action act s t =
     (case retime_scale s t of
        Inl e \<Rightarrow> Inl e
      | Inr scale \<Rightarrow> Inr (act\<lparr>fcurves := map (retime_fcurve (fst s) scale (fst t)) (fcurves act)\<rparr>))"

text \<open>A curve with keys at frames 10, 40 and 70, handles three frames to each side.\<close>

definition key_at :: "real \<Rightarrow> real \<Rightarrow> keyframe" where
  "key_at x y = \<lparr>co_x = x, co_y = y, handle_left_x = x - 3, handle_right_x = x + 3\<rparr>"

definition example_curve :: fcurve where
  "example_curve =
     \<lparr>data_path = ''location'', array_index = 0,
      keyframe_points = [key_at 10 0, key_at 40 1, key_at 70 0]\<rparr>"

subsection \<open>Paths and strings (posixpath, str.lower)\<close>

text \<open>
  \<^verbatim>\<open>os.path.join(a, b)\<close>: an absolute \<open>b\<close> replaces \<open>a\<close>; otherwise \<open>b\<close> is appended, after
  a separator unless \<open>a\<close> is empty or ends with one.
\<close>

definition path_join :: "string \<Rightarrow> string \<Rightarrow> string" where
  "path_join a b =
     (if b \<noteq> [] \<and> hd b = CHR ''/'' then b
      else if a = [] \<or> last a = CHR ''/'' then a @ b
      else a @ ''/'' @ b)"

definition basename :: "string \<Rightarrow> string" where
  "basename p = rev (takeWhile (\<lambda>c. c \<noteq> CHR ''/'') (rev p))"

text \<open>
  The second component of \<^verbatim>\<open>os.path.splitext(p)\<close>: from the last dot of the last path
  component, leading dots of that component not counting; empty when there is none.
\<close>

definition splitext_ext :: "string \<Rightarrow> string" where
  "splitext_ext p =
     (let d = dropWhile (\<lambda>c. c = CHR ''.'') (basename p)
      in if CHR ''.'' \<in> set d
         then CHR ''.'' # rev (takeWhile (\<lambda>c. c \<noteq> CHR ''.'') (rev d))
         else [])"

text \<open>\<^verbatim>\<open>str.lower\<close> on ASCII letters.\<close>

definition lower_char :: "char \<Rightarrow> char" where
  "lower_char c =
     (let n = (of_char c :: nat) in if 65 \<le> n \<and> n \<le> 90 then char_of (n + 32) else c)"

definition lower :: "string \<Rightarrow> string" where
  "lower s = map lower_char s"

subsection \<open>The host: file system, importers, scene objects\<close>

text \<open>
  An object's animation data: its action, and its NLA tracks, each the list of the
  actions of its strips (a strip may carry none).
\<close>

record anim_data =
  ad_action :: "action option"
  nla_tracks :: "action option list list"

record scene_object =
  obj_name :: string
  obj_type :: string
  animation_data :: "anim_data option"

datatype importer = FBX | GLTF | BLEND

text \<open>
  \<open>selected_after_import\<close> is the importer call of \<^verbatim>\<open>import_asset\<close> followed by the read
  of \<^verbatim>\<open>bpy.context.selected_objects\<close>: the objects selected afterwards, or the exception
  the importer raised. \<open>frame_range\<close> is \<^verbatim>\<open>act.frame_range\<close>.
\<close>

record host =
  path_exists :: "string \<Rightarrow> bool"
  selected_after_import :: "importer \<Rightarrow> string \<Rightarrow> py_error + scene_object list"
  frame_range :: "action \<Rightarrow> real \<times> real"

subsection \<open>blender\_batch\_render.py\<close>

record batch_args =
  src :: string
  out :: string
  ids :: "string list"
  fps :: int
  seconds :: real
  static_seconds :: real

text \<open>\<^verbatim>\<open>import_asset(path)\<close>, lines 105-121.\<close>

definition import_asset :: "host \<Rightarrow> string \<Rightarrow> py_error + scene_object option" where
  "import_asset h path =
     (let ext = lower (splitext_ext path);
          sel = (if ext = ''.fbx'' then selected_after_import h FBX path
                 else if ext = ''.glb'' \<or> ext = ''.gltf'' then selected_after_import h GLTF path
                 else if ext = ''.blend'' then selected_after_import h BLEND path
                 else Inl (RuntimeError (''Unsupported file: '' @ path)))
      in case sel of
           Inl e \<Rightarrow> Inl e
         | Inr objs \<Rightarrow>
             Inr (case filter (\<lambda>ob. obj_type ob = ''ARMATURE'') objs of
                    [] \<Rightarrow> None
                  | rig # _ \<Rightarrow> Some rig))"

text \<open>\<^verbatim>\<open>find_action(obj)\<close>, lines 123-130.\<close>

definition find_action :: "scene_object option \<Rightarrow> action option" where
  "find_action obj =
     (case obj of
        None \<Rightarrow> None
      | Some ob \<Rightarrow>
          (case animation_data ob of
             None \<Rightarrow> None
           | Some ad \<Rightarrow>
               (case ad_action ad of
                  Some act \<Rightarrow> Some act
                | None \<Rightarrow>
                    (case nla_tracks ad of
                       [] \<Rightarrow> None
                     | track # _ \<Rightarrow> (case track of [] \<Rightarrow> None | strip # _ \<Rightarrow> strip)))))"

text \<open>Lines 157-165: the first existing candidate among the four extensions, in order.\<close>

definition find_asset :: "host \<Rightarrow> string \<Rightarrow> string \<Rightarrow> string option" where
  "find_asset h src_dir ex_id =
     (let src_base = path_join src_dir ex_id
      in List.find (path_exists h)
           (map (\<lambda>ext. src_base @ ext) [''.fbx'', ''.glb'', ''.gltf'', ''.blend'']))"

text \<open>Lines 171-176: the static ids, the duration and the frame range of the scene.\<close>

definition is_static :: "string \<Rightarrow> bool" where
  "is_static ex_id \<longleftrightarrow>
     ex_id \<in> set [''plank'', ''side-plank'', ''wall-sit'', ''downward-dog'', ''child-pose'',
                  ''single-leg-stand'', ''tree-pose'', ''warrior-3'', ''forward-fold'',
                  ''finger-roll'']"

definition batch_frame_range :: "batch_args \<Rightarrow> string \<Rightarrow> int \<times> int" where
  "batch_frame_range a ex_id =
     (let secs = (if is_static ex_id then static_seconds a else seconds a)
      in (1, py_int (secs * real_of_int (fps a))))"

text \<open>
  Lines 193-203, the idle action: one curve, \<^verbatim>\<open>rotation_euler\<close> index 2, with two points
  whose \<^verbatim>\<open>co\<close> is assigned. \<^verbatim>\<open>keyframe_points.add(2)\<close> makes the points; the script never
  assigns their handles (here 0; the host recomputes them in \<^verbatim>\<open>fcu.update()\<close>).
\<close>

definition new_keyframe :: "real \<times> real \<Rightarrow> keyframe" where
  "new_keyframe co = \<lparr>co_x = fst co, co_y = snd co, handle_left_x = 0, handle_right_x = 0\<rparr>"

definition idle_action :: "string \<Rightarrow> int \<times> int \<Rightarrow> action" where
  "idle_action ex_id t =
     \<lparr>action_name = ex_id @ ''_Idle'',
      fcurves = [\<lparr>data_path = ''rotation_euler'', array_index = 2,
                  keyframe_points = [new_keyframe (real_of_int (fst t), 0),
                                     new_keyframe (real_of_int (snd t), 5 / 100)]\<rparr>]\<rparr>"

text \<open>Lines 179-203: what animation the scene has when the renders start.\<close>

datatype animation = Retimed action | Synthesized action | NoAnimation

definition animate :: "host \<Rightarrow> string \<Rightarrow> scene_object option \<Rightarrow> int \<times> int \<Rightarrow> py_error + animation" where
  "animate h ex_id rig t =
     (case find_action rig of
        Some act \<Rightarrow>
          (case normalize_action act (frame_range h act) t of
             Inl e \<Rightarrow> Inl e
           | Inr act' \<Rightarrow> Inr (Retimed act'))
      | None \<Rightarrow>
          (case rig of
             Some r \<Rightarrow> Inr (Synthesized (idle_action ex_id t))
           | None \<Rightarrow> Inr NoAnimation))"

text \<open>
  \<^verbatim>\<open>position_camera(kind, aspect)\<close>, lines 64-79: the camera location and the resolution.
\<close>

definition position_camera :: "string \<Rightarrow> string \<Rightarrow> (real \<times> real \<times> real) \<times> nat \<times> nat" where
  "position_camera kind aspect =
     ((if kind = ''floor'' then (0, - 32 / 10, 1) else (0, - 42 / 10, 15 / 10)),
      (if aspect = ''square'' then (1080, 1080)
       else if aspect = ''portrait'' then (1080, 1920)
       else (1920, 1080)))"

text \<open>
  The main loop, \<^verbatim>\<open>for ex_id in args.ids\<close>, through line 166. One iteration sets the
  scene up (lines 138-154, the parameter \<open>setup\<close>: the exception it raised, if any), looks
  the asset up and either prints the warning and goes on (\<^verbatim>\<open>continue\<close>, lines 163-165)
  or imports it (line 166); what follows the import (lines 167-214) is the parameter
  \<open>tail\<close>, given the id and the rig, which returns or raises. Nothing catches an
  exception: the first one ends the loop.
\<close>

datatype 'r outcome = Skipped string | Completed 'r

definition iteration ::
  "(string \<Rightarrow> py_error option) \<Rightarrow> host \<Rightarrow> batch_args
     \<Rightarrow> (string \<Rightarrow> scene_object option \<Rightarrow> py_error + 'r) \<Rightarrow> string \<Rightarrow> py_error + 'r outcome" where
  "iteration setup h a tail ex_id =
     (case setup ex_id of
        Some e \<Rightarrow> Inl e
      | None \<Rightarrow>
          (case find_asset h (src a) ex_id of
             None \<Rightarrow> Inr (Skipped (''[WARN] Missing asset for '' @ ex_id @ '' in '' @ src a))
           | Some fpath \<Rightarrow>
               (case import_asset h fpath of
                  Inl e \<Rightarrow> Inl e
                | Inr rig \<Rightarrow>
                    (case tail ex_id rig of
                       Inl e \<Rightarrow> Inl e
                     | Inr r \<Rightarrow> Inr (Completed r)))))"

text \<open>
  The run of the loop over a list of ids: what became of each id before the loop ended,
  in order, and the exception that ended it, if one did.
\<close>

fun main_loop ::
  "(string \<Rightarrow> py_error option) \<Rightarrow> host \<Rightarrow> batch_args
     \<Rightarrow> (string \<Rightarrow> scene_object option \<Rightarrow> py_error + 'r) \<Rightarrow> string list
     \<Rightarrow> (string \<times> 'r outcome) list \<times> py_error option" where
  "main_loop setup h a tail [] = ([], None)"
| "main_loop setup h a tail (ex_id # rest) =
     (case iteration setup h a tail ex_id of
        Inl e \<Rightarrow> ([], Some e)
      | Inr oc \<Rightarrow>
          (case main_loop setup h a tail rest of (ocs, r) \<Rightarrow> ((ex_id, oc) # ocs, r)))"

subsection \<open>render\_catalog\_scenes.py\<close>

record catalog_args =
  cat_out :: string
  cat_fps :: int
  cat_seconds :: real
  cat_static_seconds :: real
  static_ids :: "string list"
  subset :: "string list option"

definition set_resolution :: "string \<Rightarrow> nat \<times> nat" where
  "set_resolution aspect =
     (if aspect = ''square'' then (1080, 1080)
      else if aspect = ''portrait'' then (1080, 1920)
      else (1920, 1080))"

text \<open>Lines 51-55 of \<^verbatim>\<open>main\<close>.\<close>

definition catalog_frame_range :: "catalog_args \<Rightarrow> string \<Rightarrow> int \<times> int" where
  "catalog_frame_range a scene_name =
     (let secs = (if scene_name \<in> set (static_ids a) then cat_static_seconds a else cat_seconds a)
      in (1, max 2 (py_int (real_of_int (cat_fps a) * secs))))"

text \<open>
  Lines 58-67 of \<^verbatim>\<open>main\<close>: what each pass of the aspect loop sets before it calls the
  renderer, in the order of the passes: the resolution and the file path, beside the
  directory made for the scene.
\<close>

record render_job =
  job_aspect :: string
  resolution_x :: nat
  resolution_y :: nat
  job_out_dir :: string
  filepath :: string

definition catalog_jobs :: "string \<Rightarrow> string \<Rightarrow> render_job list" where
  "catalog_jobs out_root exercise_id =
     (let out_dir = path_join out_root exercise_id;
          base = path_join out_dir (exercise_id @ ''_v1_'')
      in map (\<lambda>(aspect, wh).
               \<lparr>job_aspect = aspect,
                resolution_x = fst (set_resolution aspect),
                resolution_y = snd (set_resolution aspect),
                job_out_dir = out_dir,
                filepath = base @ wh @ ''.mp4''\<rparr>)
           [(''square'', ''1080x1080''), (''portrait'', ''1080x1920''),
            (''landscape'', ''1920x1080'')])"

subsection \<open>repcue\_render\_addon.py\<close>

record repcue_props =
  output_dir :: string
  exercise_id :: string
  prop_seconds :: real
  prop_static_seconds :: real
  prop_is_static :: bool
  is_floor :: bool

text \<open>
  \<^verbatim>\<open>REPCUE_OT_render.execute\<close>, lines 77-80 of the operator: \<^verbatim>\<open>scn.render.fps or 30\<close> is
  30 when the scene's value is 0 and the scene's value otherwise.
\<close>

definition execute_fps :: "int \<Rightarrow> int" where
  "execute_fps scene_fps = (if scene_fps = 0 then 30 else scene_fps)"

definition execute_seconds :: "repcue_props \<Rightarrow> real" where
  "execute_seconds props =
     (if prop_is_static props then prop_static_seconds props else prop_seconds props)"

definition execute_frame_range :: "int \<Rightarrow> repcue_props \<Rightarrow> int \<times> int" where
  "execute_frame_range scene_fps props =
     (let fps' = execute_fps scene_fps;
          secs = execute_seconds props
      in (1, max 2 (py_int (secs * real_of_int fps'))))"

subsection \<open>A small catalog\<close>

text \<open>
  A source directory with four assets: a rig without animation, a mesh without a rig, a
  rig with an action over frames 10 to 70, and a file the importer rejects. No file
  exists for any other id.
\<close>

definition example_mesh :: scene_object where
  "example_mesh = \<lparr>obj_name = ''Body'', obj_type = ''MESH'', animation_data = None\<rparr>"

definition example_rig :: scene_object where
  "example_rig = \<lparr>obj_name = ''Armature'', obj_type = ''ARMATURE'', animation_data = None\<rparr>"

definition example_action :: action where
  "example_action = \<lparr>action_name = ''Loop'', fcurves = [example_curve]\<rparr>"

definition animated_rig :: scene_object where
  "animated_rig =
     \<lparr>obj_name = ''Armature'', obj_type = ''ARMATURE'',
      animation_data = Some \<lparr>ad_action = Some example_action, nla_tracks = []\<rparr>\<rparr>"

definition example_host :: host where
  "example_host =
     \<lparr>path_exists = (\<lambda>p. p \<in> set [''/assets/squats.fbx'', ''/assets/lunges.glb'',
                                    ''/assets/burpees.fbx'', ''/assets/broken.fbx'']),
      selected_after_import = (\<lambda>k p.
        if p = ''/assets/broken.fbx'' then Inl (RuntimeError ''Error: could not read file'')
        else if p = ''/assets/squats.fbx'' then Inr [example_mesh, example_rig]
        else if p = ''/assets/burpees.fbx'' then Inr [example_mesh, animated_rig]
        else Inr [example_mesh]),
      frame_range = (\<lambda>act. (10, 70))\<rparr>"

definition example_args :: batch_args where
  "example_args =
     \<lparr>src = ''/assets'', out = ''/videos'', ids = [''squats'', ''push-ups'', ''lunges''],
      fps = 30, seconds = 22 / 10, static_seconds = 10\<rparr>"

definition example_props :: repcue_props where
  "example_props =
     \<lparr>output_dir = ''//videos/'', exercise_id = ''exercise'', prop_seconds = 22 / 10,
      prop_static_seconds = 10, prop_is_static = False, is_floor = False\<rparr>"

section \<open>Properties of the retimer\<close>

lemma orig_length_pos: "0 < orig_length s"
  by (cases s) (simp add: orig_length_def)

lemma retime_scale_total:
  "retime_scale s (fs, fe) = Inr (real_of_int (fe - fs + 1) / orig_length s)"
  using orig_length_pos [of s] by (simp add: retime_scale_def py_truediv_def)

lemma retime_total:
  "retime fc s (fs, fe) =
     Inr (retime_fcurve (fst s) (real_of_int (fe - fs + 1) / orig_length s) fs fc)"
  by (simp add: retime_def retime_scale_total)

lemma normalize_action_total:
  "normalize_action act s (fs, fe) =
     Inr (act\<lparr>fcurves :=
       map (retime_fcurve (fst s) (real_of_int (fe - fs + 1) / orig_length s) fs) (fcurves act)\<rparr>)"
  by (simp add: normalize_action_def retime_scale_total)

lemma normalize_action_retime:
  "normalize_action act s t = Inr act' \<Longrightarrow> fc \<in> set (fcurves act) \<Longrightarrow>
     \<exists>fc' \<in> set (fcurves act'). retime fc s t = Inr fc'"
  by (cases t) (auto simp: normalize_action_total retime_total)

text \<open>
  C6. A degenerate source range (\<open>lastFrame \<le> firstFrame\<close>) never divides by zero: the
  divisor is 1, the scale is the target length, and the retimed curve is returned. (No
  source range at all makes the division raise: see \<open>retime_total\<close>.)
\<close>

theorem retime_degenerate_source:
  assumes "lastFrame \<le> firstFrame"
  shows "orig_length (firstFrame, lastFrame) = 1
    \<and> retime_scale (firstFrame, lastFrame) (startFrame, endFrame)
        = Inr (real_of_int (endFrame - startFrame + 1))
    \<and> retime fc (firstFrame, lastFrame) (startFrame, endFrame)
        = Inr (retime_fcurve firstFrame (real_of_int (endFrame - startFrame + 1)) startFrame fc)"
  using assms by (simp add: retime_total retime_scale_total orig_length_def)

theorem retime_degenerate_source_witness:
  "(5::real) \<le> 5
    \<and> retime_scale (5, 5) (1, 30) = Inr 30
    \<and> retime example_curve (5, 5) (1, 30) = Inr (retime_fcurve 5 30 1 example_curve)"
  using retime_degenerate_source [of 5 5 1 30 example_curve] by simp

lemma key_times_retime_fcurve:
  "key_times (retime_fcurve a sc fs fc) = map (retime_time a sc fs) (key_times fc)"
  by (simp add: key_times_def retime_fcurve_def retime_keyframe_def)

lemma retime_time_le_iff:
  "0 < sc \<Longrightarrow> retime_time a sc fs x \<le> retime_time a sc fs y \<longleftrightarrow> x \<le> y"
  by (simp add: retime_time_def)

lemma sorted_map_retime_time:
  "0 < sc \<Longrightarrow> sorted (map (retime_time a sc fs) xs) \<longleftrightarrow> sorted xs"
  by (induction xs) (auto simp: retime_time_le_iff)

lemma scale_pos: "fs \<le> fe \<Longrightarrow> 0 < real_of_int (fe - fs + 1) / orig_length s"
  using orig_length_pos [of s] by simp

text \<open>
  C1 (as the code has it). With the source range 10 to 70 and the scene range 1 to 66 the
  scale is \<open>66 / 60\<close>, and every curve is returned with each keyframe time and both
  handle times sent through \<open>x \<mapsto> (x - 10) * (66 / 60) + 1\<close>, values untouched. A key at
  10 lands on 1, a key at 40 on 34, and a key at 70 on 67: one frame past the end of
  the scene range, since the target length counts frames (\<open>end - start + 1\<close>) and the
  source length counts intervals (\<open>fend - fstart\<close>).
\<close>

theorem retime_10_70_onto_1_66:
  "retime fc (10, 70) (1, 66) = Inr (retime_fcurve 10 (66 / 60) 1 fc)
   \<and> key_times (retime_fcurve 10 (66 / 60) 1 fc)
       = map (\<lambda>x. (x - 10) * (66 / 60) + 1) (key_times fc)
   \<and> co_x (retime_keyframe 10 (66 / 60) 1 kp) = (co_x kp - 10) * (66 / 60) + 1
   \<and> handle_left_x (retime_keyframe 10 (66 / 60) 1 kp) = (handle_left_x kp - 10) * (66 / 60) + 1
   \<and> handle_right_x (retime_keyframe 10 (66 / 60) 1 kp) = (handle_right_x kp - 10) * (66 / 60) + 1
   \<and> co_y (retime_keyframe 10 (66 / 60) 1 kp) = co_y kp
   \<and> co_x (retime_keyframe 10 (66 / 60) 1 (kp\<lparr>co_x := 10\<rparr>)) = 1
   \<and> co_x (retime_keyframe 10 (66 / 60) 1 (kp\<lparr>co_x := 40\<rparr>)) = 34
   \<and> co_x (retime_keyframe 10 (66 / 60) 1 (kp\<lparr>co_x := 70\<rparr>)) = 67"
  by (simp add: retime_total orig_length_def retime_keyframe_def retime_time_def key_times_def
      retime_fcurve_def)

text \<open>
  The claim's value for the last key fails on the curve with keys at 10, 40 and 70: its
  retimed key times are 1, 34 and 67, not 1, 34 and 66.
\<close>

theorem retime_last_key_counterexample:
  "map_sum id key_times (retime example_curve (10, 70) (1, 66)) = Inr [1, 34, 67]
   \<and> map_sum id key_times (retime example_curve (10, 70) (1, 66)) \<noteq> Inr [1, 34, 66]"
  by (simp add: retime_total orig_length_def retime_keyframe_def retime_time_def key_times_def
      retime_fcurve_def example_curve_def key_at_def)

text \<open>
  C7. Retiming onto a scene range with \<open>startFrame \<le> endFrame\<close> keeps non-decreasing key
  times non-decreasing, whatever the source range. (By \<open>sorted_map_retime_time\<close> the
  result is ordered only if the input was: the order is preserved, not made.)
\<close>

theorem retime_preserves_sorted:
  assumes "sorted (key_times fc)" and "startFrame \<le> endFrame"
  shows "\<exists>fc'. retime fc s (startFrame, endFrame) = Inr fc' \<and> sorted (key_times fc')"
  using assms scale_pos [of startFrame endFrame s]
  by (simp add: retime_total key_times_retime_fcurve sorted_map_retime_time)

theorem retime_preserves_sorted_witness:
  "sorted (key_times example_curve) \<and> (1::int) \<le> 66
   \<and> (\<exists>fc'. retime example_curve (10, 70) (1, 66) = Inr fc' \<and> sorted (key_times fc'))"
proof -
  have s: "sorted (key_times example_curve)"
    by (simp add: key_times_def example_curve_def key_at_def)
  have l: "(1::int) \<le> 66" by simp
  from retime_preserves_sorted [OF s l, of "(10, 70)"] s show ?thesis by simp
qed

text \<open>
  C8. Retiming is not idempotent: retiming the curve with keys at 10, 40, 70 from (10, 70)
  onto (1, 66) gives keys at 1, 34, 67, and retiming that result again with the same
  ranges scales it a second time, to -8.9, 27.4, 63.7.
\<close>

theorem retime_not_idempotent:
  "\<exists>fc s t fc1 fc2. retime fc s t = Inr fc1 \<and> retime fc1 s t = Inr fc2 \<and> fc2 \<noteq> fc1
     \<and> key_times fc = [10, 40, 70] \<and> key_times fc1 = [1, 34, 67]
     \<and> key_times fc2 = [- 89 / 10, 274 / 10, 637 / 10]"
proof -
  let ?fc1 = "retime_fcurve 10 (66 / 60) 1 example_curve"
  let ?fc2 = "retime_fcurve 10 (66 / 60) 1 ?fc1"
  have 1: "retime example_curve (10, 70) (1, 66) = Inr ?fc1"
    by (simp add: retime_total orig_length_def)
  have 2: "retime ?fc1 (10, 70) (1, 66) = Inr ?fc2"
    by (simp add: retime_total orig_length_def)
  have k0: "key_times example_curve = [10, 40, 70]"
    by (simp add: key_times_def example_curve_def key_at_def)
  have k1: "key_times ?fc1 = [1, 34, 67]"
    by (simp add: key_times_retime_fcurve k0 retime_time_def)
  have k2: "key_times ?fc2 = [- 89 / 10, 274 / 10, 637 / 10]"
    by (simp add: key_times_retime_fcurve k0 retime_time_def)
  have "?fc2 \<noteq> ?fc1"
  proof
    assume "?fc2 = ?fc1"
    then have "key_times ?fc2 = key_times ?fc1" by simp
    then show False unfolding k1 k2 by simp
  qed
  with 1 2 k0 k1 k2 show ?thesis by blast
qed

section \<open>Frame ranges\<close>

lemma py_int_floor: "max 2 (py_int x) = max 2 \<lfloor>x\<rfloor>"
  by (auto simp: py_int_def max_def)

text \<open>
  The catalog script and the operator clamp the last frame: it is the floor of fps times
  seconds, and at least 2.
\<close>

lemma catalog_frame_range_floor:
  "catalog_frame_range a n =
     (1, max 2 \<lfloor>real_of_int (cat_fps a)
           * (if n \<in> set (static_ids a) then cat_static_seconds a else cat_seconds a)\<rfloor>)"
  by (simp add: catalog_frame_range_def py_int_floor)

lemma execute_frame_range_floor:
  "execute_frame_range f props =
     (1, max 2 \<lfloor>execute_seconds props * real_of_int (execute_fps f)\<rfloor>)"
  by (simp add: execute_frame_range_def py_int_floor)

text \<open>The two worked values, in the batch script and in the catalog script.\<close>

lemma batch_frame_range_examples:
  "batch_frame_range (a\<lparr>fps := 30, seconds := 22 / 10\<rparr>) ''squats'' = (1, 66)"
  "batch_frame_range (a\<lparr>fps := 30, static_seconds := 10\<rparr>) ''plank'' = (1, 300)"
  by (simp_all add: batch_frame_range_def is_static_def py_int_def)

lemma catalog_frame_range_examples:
  "catalog_frame_range (a\<lparr>cat_fps := 30, cat_seconds := 22 / 10, static_ids := [''plank'']\<rparr>)
     ''squats'' = (1, 66)"
  "catalog_frame_range (a\<lparr>cat_fps := 30, cat_static_seconds := 10, static_ids := [''plank'']\<rparr>)
     ''plank'' = (1, 300)"
  by (simp_all add: catalog_frame_range_def py_int_def)

text \<open>
  C3. The batch script sets the last frame to \<open>int(seconds * fps)\<close> with no lower bound:
  at 30 fps and 0.05 seconds the scene range is (1, 1), where the catalog script and the
  operator, on the same values, give (1, 2), which is \<open>max 2 (floor (30 * 0.05))\<close>.
\<close>

theorem batch_frame_end_below_two:
  "batch_frame_range (example_args\<lparr>seconds := 5 / 100\<rparr>) ''squats'' = (1, 1)
   \<and> catalog_frame_range \<lparr>cat_out = ''/videos'', cat_fps = 30, cat_seconds = 5 / 100,
        cat_static_seconds = 10, static_ids = [], subset = None\<rparr> ''squats'' = (1, 2)
   \<and> execute_frame_range 30 (example_props\<lparr>prop_seconds := 5 / 100\<rparr>) = (1, 2)
   \<and> max 2 \<lfloor>(30::real) * (5 / 100)\<rfloor> = 2"
  by (simp add: batch_frame_range_def catalog_frame_range_def execute_frame_range_def
      execute_fps_def execute_seconds_def is_static_def py_int_def example_args_def
      example_props_def)

text \<open>
  C10. In the operator a scene fps of 0 is replaced by 30, so the last frame is
  \<open>max 2 (int (seconds * 30))\<close>; any other scene fps is used as it is.
\<close>

theorem execute_fps_fallback:
  "execute_fps 0 = 30
   \<and> execute_frame_range 0 props = (1, max 2 (py_int (execute_seconds props * 30)))
   \<and> (scene_fps \<noteq> 0 \<longrightarrow> execute_fps scene_fps = scene_fps
       \<and> execute_frame_range scene_fps props
           = (1, max 2 (py_int (execute_seconds props * real_of_int scene_fps))))"
  by (simp add: execute_frame_range_def execute_fps_def)

theorem execute_fps_fallback_witness:
  "(24::int) \<noteq> 0
   \<and> execute_frame_range 0 example_props = (1, 66)
   \<and> execute_frame_range 24 example_props = (1, 52)"
  using execute_fps_fallback [of example_props 24]
  by (simp add: execute_seconds_def example_props_def py_int_def)

section \<open>Render jobs of the catalog script\<close>

lemma position_camera_resolution: "snd (position_camera kind aspect) = set_resolution aspect"
  by (simp add: position_camera_def set_resolution_def)

lemma catalog_jobs_profiles:
  "map (\<lambda>j. (job_aspect j, resolution_x j, resolution_y j)) (catalog_jobs out_root i)
     = [(''square'', 1080, 1080), (''portrait'', 1080, 1920), (''landscape'', 1920, 1080)]"
  by (simp add: catalog_jobs_def set_resolution_def Let_def)

lemma catalog_jobs_paths:
  "map filepath (catalog_jobs out_root i)
     = [path_join (path_join out_root i) (i @ ''_v1_'') @ ''1080x1080.mp4'',
        path_join (path_join out_root i) (i @ ''_v1_'') @ ''1080x1920.mp4'',
        path_join (path_join out_root i) (i @ ''_v1_'') @ ''1920x1080.mp4'']"
  by (simp add: catalog_jobs_def Let_def)

lemma path_join_plain:
  "a \<noteq> [] \<Longrightarrow> last a \<noteq> CHR ''/'' \<Longrightarrow> hd b \<noteq> CHR ''/'' \<Longrightarrow> path_join a b = a @ ''/'' @ b"
  by (simp add: path_join_def)

lemma job_path_plain:
  assumes "out_root \<noteq> []" "last out_root \<noteq> CHR ''/''" "i \<noteq> []" "hd i \<noteq> CHR ''/''"
    "last i \<noteq> CHR ''/''"
  shows "path_join (path_join out_root i) (i @ sfx) = out_root @ ''/'' @ i @ ''/'' @ i @ sfx"
proof -
  have 1: "path_join out_root i = out_root @ ''/'' @ i"
    using assms by (simp add: path_join_plain)
  have 2: "last (out_root @ ''/'' @ i) \<noteq> CHR ''/''" "hd (i @ sfx) \<noteq> CHR ''/''"
    using assms by simp_all
  show ?thesis unfolding 1 using 2 by (simp add: path_join_plain)
qed

text \<open>
  C5 (as the code has it). In the catalog script, for every scene name (the exercise id)
  and output root, the aspect loop sets three jobs, in the order square 1080x1080,
  portrait 1080x1920, landscape 1920x1080, each with the file
  \<open>join (join root id) (id_v1_) + <W>x<H>.mp4\<close>: a function of the id and the root, so a
  second run names the same three files. Where the root is not empty and does not end
  with a separator, and the id is not empty and neither starts nor ends with one, the
  file is literally \<open>root/id/id_v1_<W>x<H>.mp4\<close>.
\<close>

theorem catalog_three_jobs:
  "map (\<lambda>j. (job_aspect j, resolution_x j, resolution_y j)) (catalog_jobs out_root i)
     = [(''square'', 1080, 1080), (''portrait'', 1080, 1920), (''landscape'', 1920, 1080)]
   \<and> map filepath (catalog_jobs out_root i)
     = [path_join (path_join out_root i) (i @ ''_v1_'') @ ''1080x1080.mp4'',
        path_join (path_join out_root i) (i @ ''_v1_'') @ ''1080x1920.mp4'',
        path_join (path_join out_root i) (i @ ''_v1_'') @ ''1920x1080.mp4'']
   \<and> (out_root \<noteq> [] \<and> last out_root \<noteq> CHR ''/'' \<and> i \<noteq> [] \<and> hd i \<noteq> CHR ''/''
        \<and> last i \<noteq> CHR ''/''
        \<longrightarrow> map filepath (catalog_jobs out_root i)
            = [out_root @ ''/'' @ i @ ''/'' @ i @ ''_v1_1080x1080.mp4'',
               out_root @ ''/'' @ i @ ''/'' @ i @ ''_v1_1080x1920.mp4'',
               out_root @ ''/'' @ i @ ''/'' @ i @ ''_v1_1920x1080.mp4''])"
  by (simp add: catalog_jobs_profiles catalog_jobs_paths job_path_plain)

theorem catalog_three_jobs_witness:
  "''/videos'' \<noteq> [] \<and> last ''/videos'' \<noteq> CHR ''/'' \<and> ''squats'' \<noteq> [] \<and> hd ''squats'' \<noteq> CHR ''/''
   \<and> last ''squats'' \<noteq> CHR ''/''
   \<and> map (\<lambda>j. (job_aspect j, resolution_x j, resolution_y j)) (catalog_jobs ''/videos'' ''squats'')
       = [(''square'', 1080, 1080), (''portrait'', 1080, 1920), (''landscape'', 1920, 1080)]
   \<and> map filepath (catalog_jobs ''/videos'' ''squats'')
       = [''/videos/squats/squats_v1_1080x1080.mp4'', ''/videos/squats/squats_v1_1080x1920.mp4'',
          ''/videos/squats/squats_v1_1920x1080.mp4'']"
  using catalog_three_jobs [of "''/videos''" "''squats''"] by (simp add: path_join_def)

text \<open>
  The layout \<open>root/id/id_v1_<W>x<H>.mp4\<close> does not hold for every id: for the absolute
  scene name \<^verbatim>\<open>/abs\<close> the three files lie outside the output root.
\<close>

theorem catalog_absolute_id_counterexample:
  "map filepath (catalog_jobs ''/videos'' ''/abs'')
     = [''/abs_v1_1080x1080.mp4'', ''/abs_v1_1080x1920.mp4'', ''/abs_v1_1920x1080.mp4'']
   \<and> map filepath (catalog_jobs ''/videos'' ''/abs'')
     \<noteq> [''/videos'' @ ''/'' @ ''/abs'' @ ''/'' @ ''/abs'' @ ''_v1_1080x1080.mp4'',
         ''/videos'' @ ''/'' @ ''/abs'' @ ''/'' @ ''/abs'' @ ''_v1_1080x1920.mp4'',
         ''/videos'' @ ''/'' @ ''/abs'' @ ''/'' @ ''/abs'' @ ''_v1_1920x1080.mp4'']"
  by (simp add: catalog_jobs_def Let_def path_join_def)

section \<open>The animation branch of the batch script\<close>

lemma animate_total:
  "animate h i rig (fs, fe) =
     (case find_action rig of
        Some act \<Rightarrow>
          Inr (Retimed (act\<lparr>fcurves :=
            map (retime_fcurve (fst (frame_range h act))
                  (real_of_int (fe - fs + 1) / orig_length (frame_range h act)) fs)
              (fcurves act)\<rparr>))
      | None \<Rightarrow> (case rig of Some r \<Rightarrow> Inr (Synthesized (idle_action i (fs, fe)))
                 | None \<Rightarrow> Inr NoAnimation))"
  by (simp add: animate_def normalize_action_total split: option.splits)

lemma find_action_None [simp]: "find_action None = None"
  by (simp add: find_action_def)

text \<open>
  The idle action needs a rig: an import that selects no armature leaves the scene
  without any animation.
\<close>

lemma synthesized_needs_rig: "animate h i rig t = Inr (Synthesized act) \<Longrightarrow> rig \<noteq> None"
  by (cases t) (auto simp: animate_total split: option.splits)

lemma animate_no_rig: "animate h i None t = Inr NoAnimation"
  by (cases t) (simp add: animate_total)

text \<open>The small catalog, evaluated.\<close>

lemma example_find_asset:
  "find_asset example_host ''/assets'' ''squats'' = Some ''/assets/squats.fbx''"
  "find_asset example_host ''/assets'' ''push-ups'' = None"
  "find_asset example_host ''/assets'' ''lunges'' = Some ''/assets/lunges.glb''"
  "find_asset example_host ''/assets'' ''broken'' = Some ''/assets/broken.fbx''"
  by (simp_all add: find_asset_def example_host_def path_join_def)

lemma example_import_asset:
  "import_asset example_host ''/assets/squats.fbx'' = Inr (Some example_rig)"
  "import_asset example_host ''/assets/lunges.glb'' = Inr None"
  "import_asset example_host ''/assets/broken.fbx'' = Inl (RuntimeError ''Error: could not read file'')"
  by (simp_all add: import_asset_def splitext_ext_def basename_def lower_def lower_char_def
      example_host_def example_rig_def example_mesh_def)

lemma example_frame_range:
  "batch_frame_range example_args ''squats'' = (1, 66)"
  "batch_frame_range example_args ''lunges'' = (1, 66)"
  by (simp_all add: batch_frame_range_def is_static_def py_int_def example_args_def)

lemma example_args_fields:
  "src example_args = ''/assets''" "out example_args = ''/videos''"
  by (simp_all add: example_args_def)

lemma example_find_action: "find_action (Some example_rig) = None"
  by (simp add: find_action_def example_rig_def)

text \<open>
  C4 (as the code has it). The idle action is made exactly when no action is found on
  the imported rig and a rig was found; the branch does not look at whether the id is a
  static hold. It is then \<open>idle_action\<close>, a function of the id and the scene range: one
  curve, \<^verbatim>\<open>rotation_euler\<close> index 2, with exactly two keys, value 0 at the first frame and
  value 0.05 at the last.
\<close>

theorem idle_synthesis:
  "((\<exists>act. animate h i rig t = Inr (Synthesized act)) \<longleftrightarrow> find_action rig = None \<and> rig \<noteq> None)
   \<and> (animate h i rig t = Inr (Synthesized act) \<longrightarrow> act = idle_action i t)
   \<and> map (\<lambda>fc. (data_path fc, array_index fc, map (\<lambda>k. (co_x k, co_y k)) (keyframe_points fc)))
         (fcurves (idle_action i t))
       = [(''rotation_euler'', 2, [(real_of_int (fst t), 0), (real_of_int (snd t), 5 / 100)])]"
  by (cases t) (auto simp: animate_total idle_action_def new_keyframe_def split: option.splits)

theorem idle_synthesis_witness:
  "find_action (Some example_rig) = None \<and> Some example_rig \<noteq> None
   \<and> animate example_host ''plank'' (Some example_rig) (1, 300)
       = Inr (Synthesized (idle_action ''plank'' (1, 300)))
   \<and> map (\<lambda>fc. (data_path fc, array_index fc, map (\<lambda>k. (co_x k, co_y k)) (keyframe_points fc)))
         (fcurves (idle_action ''plank'' (1, 300)))
       = [(''rotation_euler'', 2, [(1, 0), (300, 5 / 100)])]"
  using idle_synthesis [of example_host "''plank''" "Some example_rig" "(1, 300)"
      "idle_action ''plank'' (1, 300)"]
  by (simp add: example_find_action animate_total)

text \<open>
  The id \<^verbatim>\<open>squats\<close> is not a static hold, its asset has a rig and no action, and its
  animation is the synthesized idle action.
\<close>

theorem idle_synthesis_cyclic_counterexample:
  "\<not> is_static ''squats''
   \<and> find_asset example_host (src example_args) ''squats'' = Some ''/assets/squats.fbx''
   \<and> import_asset example_host ''/assets/squats.fbx'' = Inr (Some example_rig)
   \<and> animate example_host ''squats'' (Some example_rig) (batch_frame_range example_args ''squats'')
       = Inr (Synthesized (idle_action ''squats'' (1, 66)))"
  by (simp add: is_static_def example_args_fields example_find_asset example_import_asset
      example_frame_range animate_total example_find_action)

section \<open>The main loop of the batch script\<close>

lemma iteration_missing:
  "setup i = None \<Longrightarrow> find_asset h (src a) i = None \<Longrightarrow>
     iteration setup h a tail i
       = Inr (Skipped (''[WARN] Missing asset for '' @ i @ '' in '' @ src a))"
  by (simp add: iteration_def)

lemma iteration_import_raises:
  "setup i = None \<Longrightarrow> find_asset h (src a) i = Some p \<Longrightarrow> import_asset h p = Inl e \<Longrightarrow>
     iteration setup h a tail i = Inl e"
  by (simp add: iteration_def)

lemma iteration_imported:
  "setup i = None \<Longrightarrow> find_asset h (src a) i = Some p \<Longrightarrow> import_asset h p = Inr rig \<Longrightarrow>
     iteration setup h a tail i
       = (case tail i rig of Inl e \<Rightarrow> Inl e | Inr r \<Rightarrow> Inr (Completed r))"
  by (simp add: iteration_def)

lemma main_loop_append:
  "main_loop setup h a tail (xs @ ys) =
     (case snd (main_loop setup h a tail xs) of
        None \<Rightarrow> (fst (main_loop setup h a tail xs) @ fst (main_loop setup h a tail ys),
                 snd (main_loop setup h a tail ys))
      | Some e \<Rightarrow> main_loop setup h a tail xs)"
  by (induction xs) (auto split: sum.splits prod.splits option.splits)

text \<open>
  C2 (as the code has it). An id without an asset is reported by the printed warning and
  skipped, and the loop goes on with the next id, whatever follows. No exception is
  caught: one raised by \<^verbatim>\<open>import_asset\<close> (an unsupported format, an error of the
  importer), as any other raised within an iteration, ends the loop at that id, and the
  ids after it are not reached.
\<close>

theorem main_loop_skip_or_escape:
  "(setup i = None \<and> find_asset h (src a) i = None \<longrightarrow>
      main_loop setup h a tail (i # rest)
        = ((i, Skipped (''[WARN] Missing asset for '' @ i @ '' in '' @ src a))
             # fst (main_loop setup h a tail rest),
           snd (main_loop setup h a tail rest)))
   \<and> (snd (main_loop setup h a tail pre) = None \<and> setup k = None
        \<and> find_asset h (src a) k = Some p \<and> import_asset h p = Inl e \<longrightarrow>
        main_loop setup h a tail (pre @ k # rest') = (fst (main_loop setup h a tail pre), Some e))
   \<and> (snd (main_loop setup h a tail pre') = None \<and> iteration setup h a tail k' = Inl e' \<longrightarrow>
        main_loop setup h a tail (pre' @ k' # rest'')
          = (fst (main_loop setup h a tail pre'), Some e'))"
proof -
  have A: "main_loop setup h a tail (i # rest)
        = ((i, Skipped (''[WARN] Missing asset for '' @ i @ '' in '' @ src a))
             # fst (main_loop setup h a tail rest),
           snd (main_loop setup h a tail rest))"
    if "setup i = None" "find_asset h (src a) i = None"
    using that by (cases "main_loop setup h a tail rest") (simp add: iteration_missing)
  have C: "main_loop setup h a tail (xs @ j # ys) = (fst (main_loop setup h a tail xs), Some x)"
    if "snd (main_loop setup h a tail xs) = None" "iteration setup h a tail j = Inl x"
    for xs j ys x
    using that by (simp add: main_loop_append)
  have B: "main_loop setup h a tail (pre @ k # rest') = (fst (main_loop setup h a tail pre), Some e)"
    if "snd (main_loop setup h a tail pre) = None" "setup k = None"
      "find_asset h (src a) k = Some p" "import_asset h p = Inl e"
    using that by (simp add: main_loop_append iteration_import_raises)
  from A B C show ?thesis by blast
qed

theorem main_loop_skip_or_escape_witness:
  "find_asset example_host (src example_args) ''push-ups'' = None
   \<and> find_asset example_host (src example_args) ''broken'' = Some ''/assets/broken.fbx''
   \<and> import_asset example_host ''/assets/broken.fbx''
       = Inl (RuntimeError ''Error: could not read file'')
   \<and> main_loop (\<lambda>i. None) example_host example_args (\<lambda>i rig. Inr ()) [''push-ups'']
       = ([(''push-ups'', Skipped ''[WARN] Missing asset for push-ups in /assets'')], None)
   \<and> main_loop (\<lambda>i. None) example_host example_args (\<lambda>i rig. Inr ())
         ([''push-ups''] @ ''broken'' # [''lunges''])
       = ([(''push-ups'', Skipped ''[WARN] Missing asset for push-ups in /assets'')],
          Some (RuntimeError ''Error: could not read file''))"
  using main_loop_skip_or_escape [of "\<lambda>i. None" "''push-ups''" example_host example_args
      "\<lambda>i rig. Inr ()" "[]" "[''push-ups'']" "''broken''" "''/assets/broken.fbx''"
      "RuntimeError ''Error: could not read file''" "[''lunges'']"
      "[''push-ups'']" "''broken''" "RuntimeError ''Error: could not read file''" "[''lunges'']"]
  by (simp add: example_args_fields example_find_asset example_import_asset iteration_def)

text \<open>
  A catalog whose first asset exists and cannot be imported: the importer's exception
  leaves the loop at once, nothing is recorded for that id, and the second id is never
  reached.
\<close>

theorem import_error_escapes_counterexample:
  "find_asset example_host (src example_args) ''broken'' = Some ''/assets/broken.fbx''
   \<and> import_asset example_host ''/assets/broken.fbx''
       = Inl (RuntimeError ''Error: could not read file'')
   \<and> main_loop (\<lambda>i. None) example_host example_args (\<lambda>i rig. Inr ()) [''broken'', ''lunges'']
       = ([], Some (RuntimeError ''Error: could not read file''))"
  by (simp add: example_args_fields example_find_asset example_import_asset iteration_def)

end
